theory Spec2Isabelle
  imports Main "HOL-Library.Word"
begin

section \<open>Values of the script\<close>

text \<open>
  The script \<^verbatim>\<open>apis/generate_code_api...py\<close> is sixteen lines of straight-line Python:
  it builds a JSON payload, sends it in one POST request and prints the response body.
  A Python \<^verbatim>\<open>str\<close> is a sequence of Unicode code points, modelled as a list of naturals
  (an Isabelle \<open>char\<close> has eight bits only); a \<^verbatim>\<open>bytes\<close> object is a list of 8-bit words.
\<close>

type_synonym pystr = "nat list"
type_synonym pybytes = "8 word list"

definition str :: "string \<Rightarrow> pystr" where
  "str s = map of_char s"

text \<open>
  The exceptions that the calls of the script can raise, and the result of one call:
  it returns, it raises, or it blocks for ever (the connection is opened without a timeout).
\<close>

datatype exn =
    ConnectionRefusedError
  | TimeoutError
  | ConnectionResetError
  | RemoteDisconnected
  | BadStatusLine
  | IncompleteRead
  | UnicodeEncodeError
  | UnicodeDecodeError

datatype 'a outcome = Returns 'a | Raises exn | Blocks

section \<open>\<^verbatim>\<open>json.dumps\<close> with its default arguments\<close>

text \<open>
  The values the serialiser is applied to: \<^verbatim>\<open>None\<close>, booleans, integers, strings, lists
  and dictionaries with string keys (a dictionary keeps its insertion order, so it is an
  association list).
\<close>

datatype json =
    JNull
  | JBool bool
  | JInt int
  | JStr pystr
  | JArr "json list"
  | JObj "(pystr \<times> json) list"

text \<open>\<^verbatim>\<open>'{0:04x}'.format(n)\<close> for \<open>n < 0x10000\<close>: four lower-case hexadecimal digits.\<close>

definition hex_digit :: "nat \<Rightarrow> nat" where
  "hex_digit d = (if d < 10 then 48 + d else 87 + d)"

definition hex4 :: "nat \<Rightarrow> pystr" where
  "hex4 n = [hex_digit (n div 4096 mod 16), hex_digit (n div 256 mod 16),
             hex_digit (n div 16 mod 16), hex_digit (n mod 16)]"

definition u_escape :: "nat \<Rightarrow> pystr" where
  "u_escape n = [92, 117] @ hex4 n"

text \<open>
  \<^verbatim>\<open>py_encode_basestring_ascii\<close>, the string encoder that \<^verbatim>\<open>ensure_ascii=True\<close> (the default)
  selects. The pattern \<^verbatim>\<open>([\\"]|[^\ -~])\<close> picks the backslash, the double quote and every code
  point outside \<open>0x20 .. 0x7E\<close>; a picked code point is replaced by its two-character escape
  when it has one, by \<^verbatim>\<open>\uXXXX\<close> below \<open>0x10000\<close>, and by a surrogate pair of two such escapes
  above (\<^verbatim>\<open>0xd800 | ((n >> 10) & 0x3ff)\<close> and \<^verbatim>\<open>0xdc00 | (n & 0x3ff)\<close>, where the disjunction
  is a sum since the ten low bits of both constants are zero).
\<close>

definition escape_char :: "nat \<Rightarrow> pystr" where
  "escape_char c =
     (if c = 92 then [92, 92]
      else if c = 34 then [92, 34]
      else if 32 \<le> c \<and> c \<le> 126 then [c]
      else if c = 8 then [92, 98]
      else if c = 12 then [92, 102]
      else if c = 10 then [92, 110]
      else if c = 13 then [92, 114]
      else if c = 9 then [92, 116]
      else if c < 65536 then u_escape c
      else (let n = c - 65536
            in u_escape (55296 + n div 1024 mod 1024) @ u_escape (56320 + n mod 1024)))"

definition py_encode_basestring_ascii :: "pystr \<Rightarrow> pystr" where
  "py_encode_basestring_ascii s = [34] @ concat (map escape_char s) @ [34]"

text \<open>The decimal text of an integer, as \<^verbatim>\<open>int.__repr__\<close> writes it.\<close>

function dec_digits :: "nat \<Rightarrow> pystr" where
  "dec_digits n = (if n < 10 then [48 + n] else dec_digits (n div 10) @ [48 + n mod 10])"
  by pat_completeness auto
termination
  by (relation "measure (\<lambda>n. n)") auto

declare dec_digits.simps [simp del]

definition int_repr :: "int \<Rightarrow> pystr" where
  "int_repr i = (if i < 0 then 45 # dec_digits (nat (- i)) else dec_digits (nat i))"

text \<open>\<^verbatim>\<open>sep.join(parts)\<close>.\<close>

fun join :: "'a list \<Rightarrow> 'a list list \<Rightarrow> 'a list" where
  "join sep [] = []"
| "join sep [x] = x"
| "join sep (x # y # ys) = x @ sep @ join sep (y # ys)"

text \<open>
  The serialiser with the default separators \<^verbatim>\<open>', '\<close> and \<^verbatim>\<open>': '\<close> and no indentation.
\<close>

fun json_dumps :: "json \<Rightarrow> pystr"
  and dumps_items :: "json list \<Rightarrow> pystr list"
  and dumps_pairs :: "(pystr \<times> json) list \<Rightarrow> pystr list" where
  "json_dumps JNull = str ''null''"
| "json_dumps (JBool b) = (if b then str ''true'' else str ''false'')"
| "json_dumps (JInt i) = int_repr i"
| "json_dumps (JStr s) = py_encode_basestring_ascii s"
| "json_dumps (JArr xs) = [91] @ join [44, 32] (dumps_items xs) @ [93]"
| "json_dumps (JObj kvs) = [123] @ join [44, 32] (dumps_pairs kvs) @ [125]"
| "dumps_items [] = []"
| "dumps_items (x # xs) = json_dumps x # dumps_items xs"
| "dumps_pairs [] = []"
| "dumps_pairs ((k, v) # kvs) =
     (py_encode_basestring_ascii k @ [58, 32] @ json_dumps v) # dumps_pairs kvs"

section \<open>Text codecs\<close>

text \<open>
  \<^verbatim>\<open>bytes.decode("utf-8")\<close> with the default strict error handler. The decoder accepts the
  well-formed byte sequences only: no stray or missing continuation byte, no overlong
  form (lead bytes \<open>0xC0\<close>, \<open>0xC1\<close>; \<open>0xE0\<close> followed by less than \<open>0xA0\<close>; \<open>0xF0\<close>
  followed by less than \<open>0x90\<close>), no surrogate (\<open>0xED\<close> followed by more than \<open>0x9F\<close>) and
  nothing above \<open>U+10FFFF\<close>. Any other input raises \<^verbatim>\<open>UnicodeDecodeError\<close>: the result
  \<open>None\<close>.
\<close>

definition is_cont :: "nat \<Rightarrow> bool" where
  "is_cont b \<longleftrightarrow> 128 \<le> b \<and> b \<le> 191"

definition second_ok :: "nat \<Rightarrow> nat \<Rightarrow> bool" where
  "second_ok b0 b1 =
     (if b0 = 224 then 160 \<le> b1 \<and> b1 \<le> 191
      else if b0 = 237 then 128 \<le> b1 \<and> b1 \<le> 159
      else if b0 = 240 then 144 \<le> b1 \<and> b1 \<le> 191
      else if b0 = 244 then 128 \<le> b1 \<and> b1 \<le> 143
      else is_cont b1)"

fun utf8_units :: "nat list \<Rightarrow> pystr option" where
  "utf8_units [] = Some []"
| "utf8_units (b0 # bs) =
     (if b0 < 128 then map_option (Cons b0) (utf8_units bs)
      else if 194 \<le> b0 \<and> b0 \<le> 223 then
        (case bs of
           b1 # r \<Rightarrow>
             if is_cont b1
             then map_option (Cons ((b0 - 192) * 64 + (b1 - 128))) (utf8_units r)
             else None
         | _ \<Rightarrow> None)
      else if 224 \<le> b0 \<and> b0 \<le> 239 then
        (case bs of
           b1 # b2 # r \<Rightarrow>
             if second_ok b0 b1 \<and> is_cont b2
             then map_option
                    (Cons ((b0 - 224) * 4096 + (b1 - 128) * 64 + (b2 - 128)))
                    (utf8_units r)
             else None
         | _ \<Rightarrow> None)
      else if 240 \<le> b0 \<and> b0 \<le> 244 then
        (case bs of
           b1 # b2 # b3 # r \<Rightarrow>
             if second_ok b0 b1 \<and> is_cont b2 \<and> is_cont b3
             then map_option
                    (Cons ((b0 - 240) * 262144 + (b1 - 128) * 4096
                           + (b2 - 128) * 64 + (b3 - 128)))
                    (utf8_units r)
             else None
         | _ \<Rightarrow> None)
      else None)"

definition utf8_decode :: "pybytes \<Rightarrow> pystr option" where
  "utf8_decode data = utf8_units (map unat data)"

text \<open>
  \<^verbatim>\<open>str.encode("utf-8")\<close>: one to four bytes for each code point; a surrogate cannot be
  encoded.
\<close>

definition utf8_char :: "nat \<Rightarrow> nat list option" where
  "utf8_char c =
     (if c < 128 then Some [c]
      else if c < 2048 then Some [192 + c div 64, 128 + c mod 64]
      else if c < 65536 then
        (if 55296 \<le> c \<and> c \<le> 57343 then None
         else Some [224 + c div 4096, 128 + c div 64 mod 64, 128 + c mod 64])
      else if c < 1114112 then
        Some [240 + c div 262144, 128 + c div 4096 mod 64, 128 + c div 64 mod 64,
              128 + c mod 64]
      else None)"

fun utf8_nats :: "pystr \<Rightarrow> nat list option" where
  "utf8_nats [] = Some []"
| "utf8_nats (c # cs) =
     (case utf8_char c of
        None \<Rightarrow> None
      | Some bs \<Rightarrow> map_option (append bs) (utf8_nats cs))"

definition utf8_encode :: "pystr \<Rightarrow> pybytes option" where
  "utf8_encode s = map_option (map of_nat) (utf8_nats s)"

text \<open>
  \<^verbatim>\<open>str.encode("iso-8859-1")\<close>, which \<^verbatim>\<open>http.client\<close> applies to a request body given as a
  \<^verbatim>\<open>str\<close>: one byte for each code point below 256, \<^verbatim>\<open>UnicodeEncodeError\<close> otherwise.
\<close>

fun latin1_encode :: "pystr \<Rightarrow> pybytes option" where
  "latin1_encode [] = Some []"
| "latin1_encode (c # cs) =
     (if c < 256 then map_option (Cons (of_nat c)) (latin1_encode cs) else None)"

section \<open>Reading JSON text\<close>

text \<open>
  What the receiver of the request does with the body: a JSON reader (\<^verbatim>\<open>json.loads\<close>).
  White space is space, tab, line feed and carriage return.
\<close>

fun skip_ws :: "pystr \<Rightarrow> pystr" where
  "skip_ws [] = []"
| "skip_ws (c # cs) = (if c = 32 \<or> c = 9 \<or> c = 10 \<or> c = 13 then skip_ws cs else c # cs)"

definition hex_val :: "nat \<Rightarrow> nat option" where
  "hex_val c =
     (if 48 \<le> c \<and> c \<le> 57 then Some (c - 48)
      else if 97 \<le> c \<and> c \<le> 102 then Some (c - 87)
      else if 65 \<le> c \<and> c \<le> 70 then Some (c - 55)
      else None)"

definition hex4_val :: "nat \<Rightarrow> nat \<Rightarrow> nat \<Rightarrow> nat \<Rightarrow> nat option" where
  "hex4_val a b c d =
     (case (hex_val a, hex_val b, hex_val c, hex_val d) of
        (Some x, Some y, Some z, Some w) \<Rightarrow> Some (x * 4096 + y * 256 + z * 16 + w)
      | _ \<Rightarrow> None)"

definition simple_escape :: "nat \<Rightarrow> nat option" where
  "simple_escape e =
     (if e = 34 then Some 34
      else if e = 92 then Some 92
      else if e = 47 then Some 47
      else if e = 98 then Some 8
      else if e = 102 then Some 12
      else if e = 110 then Some 10
      else if e = 114 then Some 13
      else if e = 116 then Some 9
      else None)"

definition cons_char :: "nat \<Rightarrow> (pystr \<times> pystr) option \<Rightarrow> (pystr \<times> pystr) option" where
  "cons_char c r = map_option (\<lambda>(s, rest). (c # s, rest)) r"

text \<open>
  The text of a string after its opening quote, up to the closing quote: the string and
  what follows it. A control character is refused; \<^verbatim>\<open>\uXXXX\<close> gives the code point, and a
  high surrogate followed by the escape of a low surrogate gives the code point of the pair.
\<close>

fun scan_string :: "pystr \<Rightarrow> (pystr \<times> pystr) option" where
  "scan_string [] = None"
| "scan_string (c # cs) =
     (if c = 34 then Some ([], cs)
      else if c < 32 then None
      else if c \<noteq> 92 then cons_char c (scan_string cs)
      else
        (case cs of
           [] \<Rightarrow> None
         | e # r \<Rightarrow>
             if e \<noteq> 117 then
               (case simple_escape e of
                  None \<Rightarrow> None
                | Some x \<Rightarrow> cons_char x (scan_string r))
             else
               (case r of
                  h1 # h2 # h3 # h4 # r1 \<Rightarrow>
                    (case hex4_val h1 h2 h3 h4 of
                       None \<Rightarrow> None
                     | Some uni \<Rightarrow>
                         if 55296 \<le> uni \<and> uni \<le> 56319 then
                           (case r1 of
                              b # u # l1 # l2 # l3 # l4 # r2 \<Rightarrow>
                                if b = 92 \<and> u = 117 then
                                  (case hex4_val l1 l2 l3 l4 of
                                     None \<Rightarrow> None
                                   | Some uni2 \<Rightarrow>
                                       if 56320 \<le> uni2 \<and> uni2 \<le> 57343
                                       then cons_char
                                              (65536 + (uni - 55296) * 1024 + (uni2 - 56320))
                                              (scan_string r2)
                                       else cons_char uni (scan_string r1))
                                else cons_char uni (scan_string r1)
                            | _ \<Rightarrow> cons_char uni (scan_string r1))
                         else cons_char uni (scan_string r1))
                | _ \<Rightarrow> None)))"

fun strip_prefix :: "pystr \<Rightarrow> pystr \<Rightarrow> pystr option" where
  "strip_prefix [] cs = Some cs"
| "strip_prefix (p # ps) [] = None"
| "strip_prefix (p # ps) (c # cs) = (if p = c then strip_prefix ps cs else None)"

definition is_digit :: "nat \<Rightarrow> bool" where
  "is_digit c \<longleftrightarrow> 48 \<le> c \<and> c \<le> 57"

text \<open>
  An integer: \<^verbatim>\<open>0\<close> or a digit string that does not start with \<^verbatim>\<open>0\<close>. A fraction or an
  exponent makes the number a float, which this reader does not take.
\<close>

definition scan_nat :: "pystr \<Rightarrow> (nat \<times> pystr) option" where
  "scan_nat cs =
     (case cs of
        [] \<Rightarrow> None
      | c # r \<Rightarrow>
          if \<not> is_digit c then None
          else
            (let ds = (if c = 48 then [c] else takeWhile is_digit cs);
                 rest = drop (length ds) cs
             in if rest \<noteq> [] \<and> (hd rest = 46 \<or> hd rest = 101 \<or> hd rest = 69) then None
                else Some (foldl (\<lambda>a d. 10 * a + (d - 48)) 0 ds, rest)))"

definition scan_int :: "pystr \<Rightarrow> (json \<times> pystr) option" where
  "scan_int cs =
     (case cs of
        [] \<Rightarrow> None
      | c # r \<Rightarrow>
          if c = 45 then map_option (\<lambda>(n, rest). (JInt (- int n), rest)) (scan_nat r)
          else map_option (\<lambda>(n, rest). (JInt (int n), rest)) (scan_nat cs))"

text \<open>
  A dictionary built from the pairs in their order: a repeated key keeps its first place and
  takes the last value.
\<close>

fun dict_set :: "(pystr \<times> json) list \<Rightarrow> pystr \<Rightarrow> json \<Rightarrow> (pystr \<times> json) list" where
  "dict_set [] k v = [(k, v)]"
| "dict_set ((k', v') # kvs) k v =
     (if k' = k then (k', v) # kvs else (k', v') # dict_set kvs k v)"

text \<open>
  The reader of values. The first argument bounds the number of nested and chained calls;
  every call reads at least one character before it calls again, so the length of the text
  is enough.
\<close>

fun parse_value :: "nat \<Rightarrow> pystr \<Rightarrow> (json \<times> pystr) option"
  and parse_elements :: "nat \<Rightarrow> json list \<Rightarrow> pystr \<Rightarrow> (json \<times> pystr) option"
  and parse_members :: "nat \<Rightarrow> (pystr \<times> json) list \<Rightarrow> pystr \<Rightarrow> (json \<times> pystr) option" where
  "parse_value 0 cs = None"
| "parse_value (Suc n) [] = None"
| "parse_value (Suc n) (c # r) =
     (if c = 34 then map_option (\<lambda>(s, rest). (JStr s, rest)) (scan_string r)
      else if c = 123 then
        (case skip_ws r of
           [] \<Rightarrow> None
         | d # r1 \<Rightarrow> if d = 125 then Some (JObj [], r1) else parse_members n [] (d # r1))
      else if c = 91 then
        (case skip_ws r of
           [] \<Rightarrow> None
         | d # r1 \<Rightarrow> if d = 93 then Some (JArr [], r1) else parse_elements n [] (d # r1))
      else if c = 110 then map_option (Pair JNull) (strip_prefix (str ''null'') (c # r))
      else if c = 116 then map_option (Pair (JBool True)) (strip_prefix (str ''true'') (c # r))
      else if c = 102 then map_option (Pair (JBool False)) (strip_prefix (str ''false'') (c # r))
      else scan_int (c # r))"
| "parse_elements 0 acc cs = None"
| "parse_elements (Suc n) acc cs =
     (case parse_value n cs of
        None \<Rightarrow> None
      | Some (v, r) \<Rightarrow>
          (case skip_ws r of
             [] \<Rightarrow> None
           | d # r1 \<Rightarrow>
               if d = 44 then parse_elements n (acc @ [v]) (skip_ws r1)
               else if d = 93 then Some (JArr (acc @ [v]), r1)
               else None))"
| "parse_members 0 acc cs = None"
| "parse_members (Suc n) acc [] = None"
| "parse_members (Suc n) acc (q # r) =
     (if q \<noteq> 34 then None
      else
        (case scan_string r of
           None \<Rightarrow> None
         | Some (k, r1) \<Rightarrow>
             (case skip_ws r1 of
                [] \<Rightarrow> None
              | c # r2 \<Rightarrow>
                  if c \<noteq> 58 then None
                  else
                    (case parse_value n (skip_ws r2) of
                       None \<Rightarrow> None
                     | Some (v, r3) \<Rightarrow>
                         (case skip_ws r3 of
                            [] \<Rightarrow> None
                          | d # r4 \<Rightarrow>
                              if d = 44 then parse_members n (dict_set acc k v) (skip_ws r4)
                              else if d = 125 then Some (JObj (dict_set acc k v), r4)
                              else None)))))"



section \<open>The HTTP client and the process\<close>

text \<open>
  One call of \<^verbatim>\<open>HTTPConnection.request\<close>, as the script makes it: the connection's host and
  port, the method, the path, the encoded body and the caller's headers in their order.
\<close>

record http_call =
  host :: pystr
  port :: nat
  req_method :: pystr
  url :: pystr
  body :: pybytes
  headers :: "(pystr \<times> pystr) list"

text \<open>
  A response as it arrives from the server: the status of its status line, whether its
  headers announce the chunked transfer encoding, and what reading its body from the
  connection does (the bytes that the framing delimits, an exception such as
  \<^verbatim>\<open>IncompleteRead\<close> when the connection ends before them, or no end at all).
\<close>

record http_response =
  status :: nat
  chunked :: bool
  sent_body :: "pybytes outcome"

text \<open>
  What waiting for one more response does when none arrives: it fails (the connection is
  closed or reset, or what arrives is not a response) or it never ends.
\<close>

datatype ending = Fails exn | Hangs

text \<open>
  The network, the server and the terminal are not part of the script: they are the
  parameter of a run. It fixes what sending the request does in that run (\<^verbatim>\<open>request\<close> opens
  the connection and writes the request), the responses that arrive in their order and what
  comes after the last of them, and the code points that the encoding of \<^verbatim>\<open>sys.stdout\<close> can
  represent.
\<close>

record environment =
  on_request :: "unit outcome"
  replies :: "http_response list"
  afterwards :: ending
  stdout_encodes :: "nat \<Rightarrow> bool"

text \<open>What a run does that can be observed: the requests it makes and what it prints.\<close>

record process =
  requests :: "http_call list"
  stdout :: pystr

type_synonym 'a action = "process \<Rightarrow> 'a outcome \<times> process"

text \<open>
  Statements run in sequence; an exception that nothing catches ends the run where it is
  raised, and so does a call that never returns.
\<close>

definition and_then :: "'a action \<Rightarrow> ('a \<Rightarrow> 'b action) \<Rightarrow> 'b action" where
  "and_then m f p =
     (case m p of
        (Returns x, p') \<Rightarrow> f x p'
      | (Raises e, p') \<Rightarrow> (Raises e, p')
      | (Blocks, p') \<Rightarrow> (Blocks, p'))"

record connection =
  conn_host :: pystr
  conn_port :: nat

definition HTTPConnection :: "pystr \<Rightarrow> nat \<Rightarrow> connection" where
  "HTTPConnection h n = \<lparr>conn_host = h, conn_port = n\<rparr>"

text \<open>
  \<^verbatim>\<open>conn.request(method, url, body, headers)\<close>: the body, a \<^verbatim>\<open>str\<close>, is encoded as ISO-8859-1
  before anything is sent; then the connection is opened and the request written.
\<close>

definition conn_request ::
  "environment \<Rightarrow> connection \<Rightarrow> pystr \<Rightarrow> pystr \<Rightarrow> pystr \<Rightarrow> (pystr \<times> pystr) list \<Rightarrow> unit action" where
  "conn_request env conn m u b hs p =
     (case latin1_encode b of
        None \<Rightarrow> (Raises UnicodeEncodeError, p)
      | Some bs \<Rightarrow>
          (let c = \<lparr>host = conn_host conn, port = conn_port conn, req_method = m, url = u,
                    body = bs, headers = hs\<rparr>
           in (on_request env, p\<lparr>requests := requests p @ [c]\<rparr>)))"

text \<open>
  \<^verbatim>\<open>HTTPResponse.begin\<close>, which \<^verbatim>\<open>getresponse\<close> runs: a status outside \<open>100 .. 999\<close> raises
  \<^verbatim>\<open>BadStatusLine\<close>; a response with status 100 is skipped and the next one is awaited; any
  other response is the result.
\<close>

fun begin_response :: "http_response list \<Rightarrow> ending \<Rightarrow> http_response outcome" where
  "begin_response [] e = (case e of Fails x \<Rightarrow> Raises x | Hangs \<Rightarrow> Blocks)"
| "begin_response (r # rs) e =
     (if status r < 100 \<or> 999 < status r then Raises BadStatusLine
      else if status r = 100 then begin_response rs e
      else Returns r)"

definition on_getresponse :: "environment \<Rightarrow> http_response outcome" where
  "on_getresponse env = begin_response (replies env) (afterwards env)"

definition conn_getresponse :: "environment \<Rightarrow> http_response action" where
  "conn_getresponse env p = (on_getresponse env, p)"

text \<open>
  \<^verbatim>\<open>HTTPResponse.read()\<close> for a request that is not \<^verbatim>\<open>HEAD\<close>: a chunked body is read as it
  is sent; otherwise the length of the body is zero for the statuses 204, 304 and 1xx,
  whatever the server sends, and the body is read as it is sent for the others.
\<close>

definition content :: "http_response \<Rightarrow> pybytes outcome" where
  "content res =
     (if chunked res then sent_body res
      else if status res = 204 \<or> status res = 304 \<or> (100 \<le> status res \<and> status res < 200)
      then Returns []
      else sent_body res)"

definition res_read :: "http_response \<Rightarrow> pybytes action" where
  "res_read res p = (content res, p)"

definition data_decode :: "pybytes \<Rightarrow> pystr action" where
  "data_decode data p =
     (case utf8_decode data of
        None \<Rightarrow> (Raises UnicodeDecodeError, p)
      | Some s \<Rightarrow> (Returns s, p))"

text \<open>
  \<^verbatim>\<open>sys.stdout.write(s)\<close>: the text stream encodes the text with its encoding and the strict
  error handler. A code point that the encoding cannot represent raises
  \<^verbatim>\<open>UnicodeEncodeError\<close> and nothing of the text is written.
\<close>

definition stdout_write :: "environment \<Rightarrow> pystr \<Rightarrow> unit action" where
  "stdout_write env s p =
     (if list_all (stdout_encodes env) s then (Returns (), p\<lparr>stdout := stdout p @ s\<rparr>)
      else (Raises UnicodeEncodeError, p))"

text \<open>\<^verbatim>\<open>print(s)\<close> writes the text, then the newline.\<close>

definition print :: "environment \<Rightarrow> pystr \<Rightarrow> unit action" where
  "print env s = and_then (stdout_write env s) (\<lambda>_. stdout_write env [10])"

section \<open>The script\<close>

text \<open>
  The question is the literal of line 6 of the script, nine Chinese characters, given here by
  their code points (U+751F U+6210 U+4E00 U+4E2A U+8D2A U+5403 U+86C7 U+9879 U+76EE).
\<close>

definition question :: pystr where
  "question = [0x751F, 0x6210, 0x4E00, 0x4E2A, 0x8D2A, 0x5403, 0x86C7, 0x9879, 0x76EE]"

definition payload_object :: json where
  "payload_object =
     JObj [(str ''question'', JStr question), (str ''language'', JStr (str ''python''))]"

definition payload :: pystr where
  "payload = json_dumps payload_object"

definition script_headers :: "(pystr \<times> pystr) list" where
  "script_headers =
     [(str ''User-Agent'', str ''Apifox/1.0.0 (https://apifox.com)''),
      (str ''Content-Type'', str ''application/json'')]"

definition main :: "environment \<Rightarrow> unit action" where
  "main env =
     (let conn = HTTPConnection (str ''127.0.0.1'') 8000 in
      and_then (conn_request env conn (str ''POST'') (str ''/generate'') payload script_headers)
        (\<lambda>_. and_then (conn_getresponse env)
          (\<lambda>res. and_then (res_read res)
            (\<lambda>data. and_then (data_decode data)
              (\<lambda>text. print env text)))))"

text \<open>A run starts with nothing sent and nothing printed.\<close>

definition script :: "environment \<Rightarrow> unit outcome \<times> process" where
  "script env = main env \<lparr>requests = [], stdout = []\<rparr>"

section \<open>Servers and terminals to run the script against\<close>

text \<open>
  A terminal whose encoding is UTF-8 represents every code point that has a UTF-8 encoding;
  one whose encoding is ASCII represents the code points below 128.
\<close>

definition utf8_stdout :: "nat \<Rightarrow> bool" where
  "utf8_stdout c \<longleftrightarrow> utf8_char c \<noteq> None"

definition ascii_stdout :: "nat \<Rightarrow> bool" where
  "ascii_stdout c \<longleftrightarrow> c < 128"

text \<open>
  A server that takes the request, answers with one response (a status and a body framed by
  its length) and closes the connection; a port where nothing listens; a server that closes
  the connection without an answer; one that closes it in the middle of the body; and one
  that never answers. The terminal is a UTF-8 one.
\<close>

definition responding :: "nat \<Rightarrow> pybytes \<Rightarrow> environment" where
  "responding st data =
     \<lparr>on_request = Returns (),
      replies = [\<lparr>status = st, chunked = False, sent_body = Returns data\<rparr>],
      afterwards = Fails RemoteDisconnected,
      stdout_encodes = utf8_stdout\<rparr>"

definition refusing :: environment where
  "refusing =
     \<lparr>on_request = Raises ConnectionRefusedError, replies = [], afterwards = Hangs,
      stdout_encodes = utf8_stdout\<rparr>"

definition closing :: environment where
  "closing =
     \<lparr>on_request = Returns (), replies = [], afterwards = Fails RemoteDisconnected,
      stdout_encodes = utf8_stdout\<rparr>"

definition truncating :: environment where
  "truncating =
     \<lparr>on_request = Returns (),
      replies = [\<lparr>status = 200, chunked = False, sent_body = Raises IncompleteRead\<rparr>],
      afterwards = Fails RemoteDisconnected,
      stdout_encodes = utf8_stdout\<rparr>"

definition silent :: environment where
  "silent =
     \<lparr>on_request = Returns (), replies = [], afterwards = Hangs,
      stdout_encodes = utf8_stdout\<rparr>"

text \<open>The same server in front of a terminal whose encoding is ASCII.\<close>

definition on_ascii_terminal :: "environment \<Rightarrow> environment" where
  "on_ascii_terminal env = env\<lparr>stdout_encodes := ascii_stdout\<rparr>"

definition bytes :: "string \<Rightarrow> pybytes" where
  "bytes s = map of_char s"

text \<open>
  The transport fails with \<open>e\<close> before a complete response is there: sending raises \<open>e\<close>, or
  waiting for the response does (\<^verbatim>\<open>getresponse\<close>), or reading the body does (\<^verbatim>\<open>read\<close>).
\<close>

definition transport_fails :: "environment \<Rightarrow> exn \<Rightarrow> bool" where
  "transport_fails net e =
     (case on_request net of
        Raises x \<Rightarrow> x = e
      | Blocks \<Rightarrow> False
      | Returns _ \<Rightarrow>
          (case on_getresponse net of
             Raises x \<Rightarrow> x = e
           | Blocks \<Rightarrow> False
           | Returns res \<Rightarrow> content res = Raises e))"

text \<open>
  The text of the body as the specification writes it, with the Chinese characters
  themselves, and the text with each of them as a \<^verbatim>\<open>\uXXXX\<close> escape.
\<close>

definition literal_text :: pystr where
  "literal_text = str ''{\"question\": \"'' @ question @ str ''\", \"language\": \"python\"}''"

definition uXXXX :: "string \<Rightarrow> pystr" where
  "uXXXX h = [92, 117] @ str h"

definition escaped_text :: pystr where
  "escaped_text =
     str ''{\"question\": \"''
     @ uXXXX ''751f'' @ uXXXX ''6210'' @ uXXXX ''4e00'' @ uXXXX ''4e2a'' @ uXXXX ''8d2a''
     @ uXXXX ''5403'' @ uXXXX ''86c7'' @ uXXXX ''9879'' @ uXXXX ''76ee''
     @ str ''\", \"language\": \"python\"}''"

text \<open>
  The request that line 13 makes on the connection of line 4, with the body encoded.
\<close>

definition the_request :: http_call where
  "the_request =
     \<lparr>host = str ''127.0.0.1'', port = 8000, req_method = str ''POST'', url = str ''/generate'',
      body = map of_nat payload, headers = script_headers\<rparr>"

section \<open>The serialiser writes ASCII only\<close>

lemma hex_digit_ascii: "d < 16 \<Longrightarrow> hex_digit d < 128"
  by (simp add: hex_digit_def)

lemma u_escape_ascii: "c \<in> set (u_escape n) \<Longrightarrow> c < 128"
  by (auto simp: u_escape_def hex4_def intro!: hex_digit_ascii)

lemma escape_char_ascii: "x \<in> set (escape_char c) \<Longrightarrow> x < 128"
  by (auto simp: escape_char_def Let_def split: if_splits dest: u_escape_ascii)

lemma encode_basestring_ascii: "x \<in> set (py_encode_basestring_ascii s) \<Longrightarrow> x < 128"
  by (auto simp: py_encode_basestring_ascii_def dest: escape_char_ascii)

lemma dec_digits_ascii: "x \<in> set (dec_digits n) \<Longrightarrow> x < 128"
proof (induction n rule: dec_digits.induct)
  case (1 n)
  show ?case
  proof (cases "n < 10")
    case True
    with "1.prems" show ?thesis by (simp add: dec_digits.simps [of n])
  next
    case False
    with "1.prems" have "x \<in> set (dec_digits (n div 10)) \<or> x = 48 + n mod 10"
      by (auto simp add: dec_digits.simps [of n])
    then show ?thesis
    proof
      assume "x \<in> set (dec_digits (n div 10))"
      with False "1.IH" show ?thesis by simp
    next
      assume "x = 48 + n mod 10"
      moreover have "n mod 10 < 10" by simp
      ultimately show ?thesis by linarith
    qed
  qed
qed

lemma int_repr_ascii: "x \<in> set (int_repr i) \<Longrightarrow> x < 128"
  by (auto simp: int_repr_def split: if_splits dest: dec_digits_ascii)

lemma join_ascii:
  "(\<And>p x. p \<in> set ps \<Longrightarrow> x \<in> set p \<Longrightarrow> x < (128::nat)) \<Longrightarrow>
   (\<And>x. x \<in> set sep \<Longrightarrow> x < 128) \<Longrightarrow> x \<in> set (join sep ps) \<Longrightarrow> x < 128"
  by (induction sep ps rule: join.induct) auto

lemma dumps_ascii:
  "(\<forall>x \<in> set (json_dumps v). x < 128)"
  "(\<forall>p \<in> set (dumps_items vs). \<forall>x \<in> set p. x < 128)"
  "(\<forall>p \<in> set (dumps_pairs kvs). \<forall>x \<in> set p. x < 128)"
proof (induction v and vs and kvs rule: json_dumps_dumps_items_dumps_pairs.induct)
  case (5 xs)
  then show ?case by (auto dest!: join_ascii [rotated 2])
next
  case (6 kvs)
  then show ?case by (auto dest!: join_ascii [rotated 2])
qed (auto simp: str_def dest: int_repr_ascii encode_basestring_ascii)

lemma json_dumps_ascii: "x \<in> set (json_dumps v) \<Longrightarrow> x < 128"
  using dumps_ascii(1) by blast

lemma latin1_encode_ascii:
  "(\<And>x. x \<in> set s \<Longrightarrow> x < 128) \<Longrightarrow> latin1_encode s = Some (map of_nat s)"
  by (induction s) (auto, force)



lemma unat_of_nat_ascii: "x < 128 \<Longrightarrow> unat (of_nat x :: 8 word) = x"
  by (rule of_nat_inverse) simp_all


section \<open>What a run does\<close>

text \<open>
  The payload is ASCII, so its encoding as ISO-8859-1 cannot fail and the request is always
  made; what follows depends on the network only.
\<close>

lemma payload_ascii: "x \<in> set payload \<Longrightarrow> x < 128"
  unfolding payload_def by (rule json_dumps_ascii)

lemma payload_body: "latin1_encode payload = Some (map of_nat payload)"
  by (rule latin1_encode_ascii) (rule payload_ascii)


lemma script_eq:
  "script net =
     (case on_request net of
        Returns _ \<Rightarrow>
          (case on_getresponse net of
             Returns res \<Rightarrow>
               (case content res of
                  Returns data \<Rightarrow>
                    (case utf8_decode data of
                       Some s \<Rightarrow>
                         (if list_all (stdout_encodes net) s then
                            (if stdout_encodes net 10
                             then (Returns (), \<lparr>requests = [the_request], stdout = s @ [10]\<rparr>)
                             else (Raises UnicodeEncodeError,
                                   \<lparr>requests = [the_request], stdout = s\<rparr>))
                          else (Raises UnicodeEncodeError,
                                \<lparr>requests = [the_request], stdout = []\<rparr>))
                     | None \<Rightarrow> (Raises UnicodeDecodeError, \<lparr>requests = [the_request], stdout = []\<rparr>))
                | Raises e \<Rightarrow> (Raises e, \<lparr>requests = [the_request], stdout = []\<rparr>)
                | Blocks \<Rightarrow> (Blocks, \<lparr>requests = [the_request], stdout = []\<rparr>))
           | Raises e \<Rightarrow> (Raises e, \<lparr>requests = [the_request], stdout = []\<rparr>)
           | Blocks \<Rightarrow> (Blocks, \<lparr>requests = [the_request], stdout = []\<rparr>))
      | Raises e \<Rightarrow> (Raises e, \<lparr>requests = [the_request], stdout = []\<rparr>)
      | Blocks \<Rightarrow> (Blocks, \<lparr>requests = [the_request], stdout = []\<rparr>))"
  by (simp add: script_def main_def and_then_def conn_request_def payload_body
      HTTPConnection_def conn_getresponse_def res_read_def data_decode_def print_def
      stdout_write_def the_request_def
      split: outcome.splits option.splits)

lemma script_requests: "requests (snd (script net)) = [the_request]"
  by (simp add: script_eq split: outcome.splits option.splits)


text \<open>
  With a server that takes the request and never answers, the run does not end: the
  connection has no timeout.
\<close>

lemma silent_server_blocks: "fst (script silent) = Blocks"
  by (simp add: script_eq silent_def on_getresponse_def)

text \<open>
  The client, not the script, looks at the status: a status line whose number is outside
  \<open>100 .. 999\<close> makes \<^verbatim>\<open>getresponse\<close> raise, and a response with status 100 is passed over.
\<close>

lemma bad_status_raises: "fst (script (responding 99 data)) = Raises BadStatusLine"
  by (simp add: script_eq responding_def on_getresponse_def)

lemma continue_skipped:
  "on_getresponse (env\<lparr>replies := \<lparr>status = 100, chunked = False, sent_body = b\<rparr> # rs\<rparr>)
     = on_getresponse (env\<lparr>replies := rs\<rparr>)"
  by (simp add: on_getresponse_def)

text \<open>The payload, character by character, and what a JSON reader makes of it.\<close>

lemma payload_text:
  "payload =
     [123, 34, 113, 117, 101, 115, 116, 105, 111, 110, 34, 58, 32, 34, 92, 117,
      55, 53, 49, 102, 92, 117, 54, 50, 49, 48, 92, 117, 52, 101, 48, 48, 92,
      117, 52, 101, 50, 97, 92, 117, 56, 100, 50, 97, 92, 117, 53, 52, 48, 51,
      92, 117, 56, 54, 99, 55, 92, 117, 57, 56, 55, 57, 92, 117, 55, 54, 101,
      101, 34, 44, 32, 34, 108, 97, 110, 103, 117, 97, 103, 101, 34, 58, 32, 34,
      112, 121, 116, 104, 111, 110, 34, 125]"
  by (simp add: payload_def payload_object_def question_def str_def
      py_encode_basestring_ascii_def escape_char_def u_escape_def hex4_def hex_digit_def)




lemma payload_escaped: "payload = escaped_text"
  unfolding payload_text by (simp add: escaped_text_def uXXXX_def str_def)

section \<open>The decoder is the inverse of the encoder\<close>

lemma div_4096: "c div 4096 = c div 64 div 64" for c :: nat
  by (simp add: div_mult2_eq [symmetric])

lemma div_262144: "c div 262144 = c div 64 div 64 div 64" for c :: nat
  by (simp add: div_mult2_eq [symmetric])

lemma split64: "d div 64 * 64 + d mod 64 = d" for d :: nat
  by simp

text \<open>A code point is its base-64 digits: these are what the bytes carry.\<close>

lemma utf8_char_decodes:
  assumes "utf8_char c = Some cb"
  shows "utf8_units (cb @ rest) = map_option (Cons c) (utf8_units rest)"
proof -
  define d1 where "d1 = c div 64"
  define d2 where "d2 = d1 div 64"
  define d3 where "d3 = d2 div 64"
  define r0 where "r0 = c mod 64"
  define r1 where "r1 = d1 mod 64"
  define r2 where "r2 = d2 mod 64"
  have e0: "d1 * 64 + r0 = c" unfolding d1_def r0_def by (rule split64)
  have e1: "d2 * 64 + r1 = d1" unfolding d2_def r1_def by (rule split64)
  have e2: "d3 * 64 + r2 = d2" unfolding d3_def r2_def by (rule split64)
  have lt: "r0 < 64" "r1 < 64" "r2 < 64" unfolding r0_def r1_def r2_def by simp_all
  have n: "c div 64 = d1" "c mod 64 = r0" "c div 4096 = d2" "c div 64 mod 64 = r1"
    "c div 262144 = d3" "c div 4096 mod 64 = r2" "d1 mod 64 = r1" "d2 mod 64 = r2"
    unfolding d1_def d2_def d3_def r0_def r1_def r2_def div_4096 div_262144 by simp_all
  consider (a) "c < 128" | (b) "128 \<le> c" "c < 2048"
    | (c) "2048 \<le> c" "c < 65536" "\<not> (55296 \<le> c \<and> c \<le> 57343)"
    | (d) "65536 \<le> c" "c < 1114112"
    using assms by (auto simp: utf8_char_def split: if_splits)
  then show ?thesis
  proof cases
    case a
    with assms show ?thesis by (auto simp: utf8_char_def)
  next
    case b
    with assms have cb: "cb = [192 + d1, 128 + r0]"
      by (auto simp: utf8_char_def n)
    have "2 \<le> d1" "d1 \<le> 31" using b e0 lt by linarith+
    then show ?thesis
      using lt e0 by (simp add: cb is_cont_def)
  next
    case c
    with assms have cb: "cb = [224 + d2, 128 + r1, 128 + r0]"
      by (auto simp: utf8_char_def n)
    have r: "d2 \<le> 15" using c e0 e1 lt by linarith
    have s: "second_ok (224 + d2) (128 + r1)"
      unfolding second_ok_def is_cont_def using c e0 e1 lt by auto
    have v: "d2 * 4096 + r1 * 64 + r0 = c" using e0 e1 by linarith
    show ?thesis
      using lt r s v by (simp add: cb is_cont_def)
  next
    case d
    with assms have cb: "cb = [240 + d3, 128 + r2, 128 + r1, 128 + r0]"
      by (auto simp: utf8_char_def n)
    have r: "d3 \<le> 4" using d e0 e1 e2 lt by linarith
    have s: "second_ok (240 + d3) (128 + r2)"
      unfolding second_ok_def is_cont_def using d e0 e1 e2 lt by auto
    have v: "d3 * 262144 + r2 * 4096 + r1 * 64 + r0 = c" using e0 e1 e2 by linarith
    show ?thesis
      using lt r s v by (simp add: cb is_cont_def)
  qed
qed

lemma utf8_nats_decodes: "utf8_nats s = Some bs \<Longrightarrow> utf8_units bs = Some s"
proof (induction s arbitrary: bs)
  case Nil
  then show ?case by simp
next
  case (Cons c s)
  then obtain cb rest where "utf8_char c = Some cb" "utf8_nats s = Some rest" "bs = cb @ rest"
    by (auto split: option.splits)
  with Cons.IH show ?case
    by (simp add: utf8_char_decodes)
qed

lemma utf8_char_bytes: "utf8_char c = Some cb \<Longrightarrow> b \<in> set cb \<Longrightarrow> b < 256"
  by (auto simp: utf8_char_def split: if_splits)

lemma utf8_nats_bytes: "utf8_nats s = Some bs \<Longrightarrow> b \<in> set bs \<Longrightarrow> b < 256"
proof (induction s arbitrary: bs)
  case Nil
  then show ?case by simp
next
  case (Cons c s)
  then show ?case
    by (auto split: option.splits dest: utf8_char_bytes)
qed

lemma digit_div: "r < 64 \<Longrightarrow> (a * 64 + r) div 64 = a" for a r :: nat
  by simp

lemma digit_mod: "r < 64 \<Longrightarrow> (a * 64 + r) mod 64 = r" for a r :: nat
  by simp

lemma digits2:
  fixes q r0 :: nat
  assumes "r0 < 64"
  shows "(q * 64 + r0) div 64 = q" "(q * 64 + r0) mod 64 = r0"
  using assms by simp_all

lemma digits3:
  fixes c q r1 r0 :: nat
  assumes "r1 < 64" "r0 < 64" and c: "c = q * 4096 + r1 * 64 + r0"
  shows "c div 4096 = q" "c div 64 mod 64 = r1" "c mod 64 = r0"
proof -
  have e: "c = (q * 64 + r1) * 64 + r0" unfolding c by simp
  have d: "c div 64 = q * 64 + r1" unfolding e using assms(2) by (rule digit_div)
  show "c mod 64 = r0" unfolding e using assms(2) by (rule digit_mod)
  show "c div 64 mod 64 = r1" unfolding d using assms(1) by (rule digit_mod)
  show "c div 4096 = q" unfolding div_4096 d using assms(1) by (rule digit_div)
qed

lemma digits4:
  fixes c q r2 r1 r0 :: nat
  assumes "r2 < 64" "r1 < 64" "r0 < 64" and c: "c = q * 262144 + r2 * 4096 + r1 * 64 + r0"
  shows "c div 262144 = q" "c div 4096 mod 64 = r2" "c div 64 mod 64 = r1" "c mod 64 = r0"
proof -
  have e: "c = ((q * 64 + r2) * 64 + r1) * 64 + r0" unfolding c by simp
  have d: "c div 64 = (q * 64 + r2) * 64 + r1" unfolding e using assms(3) by (rule digit_div)
  have d': "c div 64 div 64 = q * 64 + r2" unfolding d using assms(2) by (rule digit_div)
  show "c mod 64 = r0" unfolding e using assms(3) by (rule digit_mod)
  show "c div 64 mod 64 = r1" unfolding d using assms(2) by (rule digit_mod)
  show "c div 4096 mod 64 = r2" unfolding div_4096 d' using assms(1) by (rule digit_mod)
  show "c div 262144 = q" unfolding div_262144 d' using assms(1) by (rule digit_div)
qed

lemma utf8_char2:
  assumes "194 \<le> b0" "b0 \<le> 223" "is_cont b1"
  shows "utf8_char ((b0 - 192) * 64 + (b1 - 128)) = Some [b0, b1]"
proof -
  define q where "q = b0 - 192"
  define r0 where "r0 = b1 - 128"
  have b: "b0 = 192 + q" "b1 = 128 + r0" "2 \<le> q" "q \<le> 31" "r0 < 64"
    using assms unfolding q_def r0_def is_cont_def by auto
  have r: "128 \<le> q * 64 + r0" "q * 64 + r0 < 2048" using b by linarith+
  show ?thesis
    unfolding q_def [symmetric] r0_def [symmetric]
    using r digits2 [OF b(5), of q] by (simp add: utf8_char_def b)
qed

lemma range3:
  fixes q r1 r0 :: nat
  assumes "q \<le> 15" "r1 < 64" "r0 < 64" "q = 0 \<longrightarrow> 32 \<le> r1" "q = 13 \<longrightarrow> r1 < 32"
  shows "2048 \<le> q * 4096 + r1 * 64 + r0" "q * 4096 + r1 * 64 + r0 < 65536"
    "\<not> (55296 \<le> q * 4096 + r1 * 64 + r0 \<and> q * 4096 + r1 * 64 + r0 \<le> 57343)"
proof -
  show "2048 \<le> q * 4096 + r1 * 64 + r0"
    using assms by (cases "q = 0") simp_all
  show "q * 4096 + r1 * 64 + r0 < 65536"
    using assms by linarith
  consider "q \<le> 12" | "q = 13" | "14 \<le> q" by linarith
  then show "\<not> (55296 \<le> q * 4096 + r1 * 64 + r0 \<and> q * 4096 + r1 * 64 + r0 \<le> 57343)"
  proof cases
    case 1
    then show ?thesis using assms by linarith
  next
    case 2
    then show ?thesis using assms by simp
  next
    case 3
    then show ?thesis using assms by linarith
  qed
qed

lemma range4:
  fixes q r2 r1 r0 :: nat
  assumes "q \<le> 4" "r2 < 64" "r1 < 64" "r0 < 64" "q = 0 \<longrightarrow> 16 \<le> r2" "q = 4 \<longrightarrow> r2 < 16"
  shows "65536 \<le> q * 262144 + r2 * 4096 + r1 * 64 + r0"
    "q * 262144 + r2 * 4096 + r1 * 64 + r0 < 1114112"
proof -
  show "65536 \<le> q * 262144 + r2 * 4096 + r1 * 64 + r0"
    using assms by (cases "q = 0") simp_all
  show "q * 262144 + r2 * 4096 + r1 * 64 + r0 < 1114112"
  proof (cases "q = 4")
    case True
    then show ?thesis using assms by simp
  next
    case False
    then have "q \<le> 3" using assms by simp
    then show ?thesis using assms by linarith
  qed
qed

lemma utf8_char3:
  assumes "224 \<le> b0" "b0 \<le> 239" "second_ok b0 b1" "is_cont b2"
  shows "utf8_char ((b0 - 224) * 4096 + (b1 - 128) * 64 + (b2 - 128)) = Some [b0, b1, b2]"
proof -
  define q where "q = b0 - 224"
  define r1 where "r1 = b1 - 128"
  define r0 where "r0 = b2 - 128"
  define c where "c = q * 4096 + r1 * 64 + r0"
  have b: "b0 = 224 + q" "b2 = 128 + r0" "q \<le> 15" "r0 < 64"
    using assms unfolding q_def r0_def is_cont_def by auto
  have b1: "b1 = 128 + r1" "r1 < 64" "q = 0 \<longrightarrow> 32 \<le> r1" "q = 13 \<longrightarrow> r1 < 32"
    using assms(3) b(1) unfolding r1_def second_ok_def is_cont_def
    by (auto split: if_splits)
  have r: "2048 \<le> c" "c < 65536" "\<not> (55296 \<le> c \<and> c \<le> 57343)"
    unfolding c_def using b(3) b1(2) b(4) b1(3) b1(4) by (rule range3)+
  have d: "c div 4096 = q" "c div 64 mod 64 = r1" "c mod 64 = r0"
    using b1(2) b(4) c_def by (rule digits3)+
  have "utf8_char c = Some [224 + q, 128 + r1, 128 + r0]"
    unfolding utf8_char_def d using r by simp
  then show ?thesis
    unfolding c_def b(1) [symmetric] b(2) [symmetric] b1(1) [symmetric]
    unfolding q_def r1_def r0_def .
qed

lemma utf8_char4:
  assumes "240 \<le> b0" "b0 \<le> 244" "second_ok b0 b1" "is_cont b2" "is_cont b3"
  shows "utf8_char ((b0 - 240) * 262144 + (b1 - 128) * 4096 + (b2 - 128) * 64 + (b3 - 128))
         = Some [b0, b1, b2, b3]"
proof -
  define q where "q = b0 - 240"
  define r2 where "r2 = b1 - 128"
  define r1 where "r1 = b2 - 128"
  define r0 where "r0 = b3 - 128"
  define c where "c = q * 262144 + r2 * 4096 + r1 * 64 + r0"
  have b: "b0 = 240 + q" "b2 = 128 + r1" "b3 = 128 + r0" "q \<le> 4" "r1 < 64" "r0 < 64"
    using assms unfolding q_def r1_def r0_def is_cont_def by auto
  have b1: "b1 = 128 + r2" "r2 < 64" "q = 0 \<longrightarrow> 16 \<le> r2" "q = 4 \<longrightarrow> r2 < 16"
    using assms(3) b(1) unfolding r2_def second_ok_def is_cont_def
    by (auto split: if_splits)
  have r: "65536 \<le> c" "c < 1114112"
    unfolding c_def using b(4) b1(2) b(5) b(6) b1(3) b1(4) by (rule range4)+
  have d: "c div 262144 = q" "c div 4096 mod 64 = r2" "c div 64 mod 64 = r1" "c mod 64 = r0"
    using b1(2) b(5) b(6) c_def by (rule digits4)+
  have "utf8_char c = Some [240 + q, 128 + r2, 128 + r1, 128 + r0]"
    unfolding utf8_char_def d using r by simp
  then show ?thesis
    unfolding c_def b(1) [symmetric] b(2) [symmetric] b(3) [symmetric] b1(1) [symmetric]
    unfolding q_def r2_def r1_def r0_def .
qed

lemma utf8_char1: "c < 128 \<Longrightarrow> utf8_char c = Some [c]"
  by (simp add: utf8_char_def)

lemma utf8_units_encodes: "utf8_units bs = Some s \<Longrightarrow> utf8_nats s = Some bs"
proof (induction bs arbitrary: s rule: utf8_units.induct)
  case 1
  then show ?case by simp
next
  case (2 b0 bs)
  consider (a) "b0 < 128" | (b) "194 \<le> b0" "b0 \<le> 223" | (c) "224 \<le> b0" "b0 \<le> 239"
    | (d) "240 \<le> b0" "b0 \<le> 244"
    using "2.prems" by (fastforce split: if_splits)
  then show ?case
  proof cases
    case a
    with "2.prems" obtain t where t: "utf8_units bs = Some t" "s = b0 # t"
      by auto
    from "2.IH"(1) [OF a t(1)] a show ?thesis
      by (simp add: t(2) utf8_char1)
  next
    case b
    with "2.prems" obtain b1 r t where t: "bs = b1 # r" "is_cont b1" "utf8_units r = Some t"
      "s = ((b0 - 192) * 64 + (b1 - 128)) # t"
      by (auto split: list.splits if_splits)
    have "utf8_nats t = Some r"
      using b t "2.IH"(2) [of b1 r t] by auto
    then show ?thesis
      using utf8_char2 [OF b t(2)] by (simp add: t)
  next
    case c
    with "2.prems" obtain b1 b2 r t where t: "bs = b1 # b2 # r" "second_ok b0 b1" "is_cont b2"
      "utf8_units r = Some t"
      "s = ((b0 - 224) * 4096 + (b1 - 128) * 64 + (b2 - 128)) # t"
      by (auto split: list.splits if_splits)
    have "utf8_nats t = Some r"
      using c t "2.IH"(3) [of b1 "b2 # r" b2 r t] by auto
    then show ?thesis
      using utf8_char3 [OF c t(2) t(3)] by (simp add: t)
  next
    case d
    with "2.prems" obtain b1 b2 b3 r t where t: "bs = b1 # b2 # b3 # r" "second_ok b0 b1"
      "is_cont b2" "is_cont b3" "utf8_units r = Some t"
      "s = ((b0 - 240) * 262144 + (b1 - 128) * 4096 + (b2 - 128) * 64 + (b3 - 128)) # t"
      by (auto split: list.splits if_splits)
    have "utf8_nats t = Some r"
      using d t "2.IH"(4) [of b1 "b2 # b3 # r" b2 "b3 # r" b3 r t] by auto
    then show ?thesis
      using utf8_char4 [OF d t(2) t(3) t(4)] by (simp add: t)
  qed
qed


lemma utf8_decode_encode: "utf8_decode data = Some s \<longleftrightarrow> utf8_encode s = Some data"
proof
  assume "utf8_decode data = Some s"
  then have "utf8_nats s = Some (map unat data)"
    unfolding utf8_decode_def by (rule utf8_units_encodes)
  then show "utf8_encode s = Some data"
    by (simp add: utf8_encode_def comp_def)
next
  assume "utf8_encode s = Some data"
  then obtain bs where bs: "utf8_nats s = Some bs" "data = map of_nat bs"
    by (auto simp: utf8_encode_def)
  have "unat (of_nat b :: 8 word) = b" if "b \<in> set bs" for b
    using utf8_nats_bytes [OF bs(1) that] by (simp add: of_nat_inverse)
  then have "map unat data = bs"
    unfolding bs(2) by (induction bs) simp_all
  then show "utf8_decode data = Some s"
    using utf8_nats_decodes [OF bs(1)] by (simp add: utf8_decode_def)
qed

section \<open>The request\<close>


text \<open>
  C2, as stated: the body is the UTF-8 encoding of the JSON text with the Chinese characters
  themselves. It is not: the body of the request differs from that byte sequence.
\<close>

theorem request_body_not_utf8_literal:
  "map (\<lambda>c. Some (body c)) (requests (snd (script closing))) \<noteq> [utf8_encode literal_text]"
  by (simp add: script_requests the_request_def payload_text utf8_encode_def literal_text_def
      question_def str_def utf8_char_def)

text \<open>
  C2, amended: the body is the ASCII text in which each Chinese character is written as
  its \<^verbatim>\<open>\uXXXX\<close> escape, one byte for each character of that text.
\<close>

theorem request_body_escaped:
  "map body (requests (snd (script net))) = [map of_nat escaped_text]"
  by (simp add: script_requests the_request_def payload_escaped)


text \<open>
  C5. Any two runs make the same requests: the same host and port, method, path, headers
  and body bytes, whatever the network and the server do. The request holds nothing that
  depends on the run.
\<close>

theorem requests_deterministic:
  "requests (snd (script net1)) = requests (snd (script net2))"
  by (simp add: script_requests)

text \<open>
  C6. Every run makes exactly one request; its method is \<^verbatim>\<open>POST\<close>, its path is \<^verbatim>\<open>/generate\<close>,
  and it goes to host \<^verbatim>\<open>127.0.0.1\<close>, port 8000.
\<close>

theorem one_post_request:
  "map (\<lambda>c. (host c, port c, req_method c, url c)) (requests (snd (script net))) =
     [(str ''127.0.0.1'', 8000, str ''POST'', str ''/generate'')]"
  by (simp add: script_requests the_request_def)

text \<open>
  C7. The request carries exactly the two headers that the script sets: \<^verbatim>\<open>User-Agent\<close> with
  the value \<^verbatim>\<open>Apifox/1.0.0 (https://apifox.com)\<close> and \<^verbatim>\<open>Content-Type\<close> with the value
  \<^verbatim>\<open>application/json\<close>.
\<close>

theorem two_headers:
  "map headers (requests (snd (script net))) =
     [[(str ''User-Agent'', str ''Apifox/1.0.0 (https://apifox.com)''),
       (str ''Content-Type'', str ''application/json'')]]"
  by (simp add: script_requests the_request_def script_headers_def)

text \<open>
  C9. The body of the request has ASCII bytes only: no byte is above \<open>0x7F\<close>, since the
  serialiser writes every character outside \<open>0x20 .. 0x7E\<close> as an escape.
\<close>

theorem request_body_ascii:
  "map (\<lambda>c. list_all (\<lambda>b. b \<le> 0x7F) (body c)) (requests (snd (script net))) = [True]"
proof -
  have "of_nat x \<le> (0x7F :: 8 word)" if "x \<in> set payload" for x
  proof -
    from that have "x < 128" by (rule payload_ascii)
    then show ?thesis
      by (simp add: word_le_nat_alt unat_of_nat_ascii)
  qed
  then show ?thesis
    by (simp add: script_requests the_request_def list_all_iff)
qed

section \<open>The response\<close>

text \<open>
  C3, as stated: for every response body that is valid UTF-8, the whole output is the
  decoded body and one newline. It is not so on a terminal whose encoding cannot represent
  the text: the body \<open>E7 94 9F\<close> is the UTF-8 encoding of the character U+751F, and on an
  ASCII terminal the run ends with an unhandled \<^verbatim>\<open>UnicodeEncodeError\<close> and prints nothing.
\<close>

theorem valid_body_not_printed:
  "utf8_encode [0x751F] = Some [0xE7, 0x94, 0x9F]
   \<and> fst (script (on_ascii_terminal (responding 200 [0xE7, 0x94, 0x9F])))
       = Raises UnicodeEncodeError
   \<and> stdout (snd (script (on_ascii_terminal (responding 200 [0xE7, 0x94, 0x9F])))) = []"
  by (simp add: script_eq on_ascii_terminal_def responding_def on_getresponse_def content_def
      utf8_decode_def utf8_encode_def utf8_char_def is_cont_def second_ok_def ascii_stdout_def)

text \<open>
  C3, amended: when the request is sent, the response arrives and \<^verbatim>\<open>read()\<close> returns its
  body, the body is the UTF-8 encoding of a text, and the encoding of standard output can
  represent every character of that text and the newline, the script ends normally and its
  whole output is that text followed by one newline. In particular the body
  \<^verbatim>\<open>{"status":"ok"}\<close> of a 200 response is printed as \<^verbatim>\<open>{"status":"ok"}\<close> and a newline.
\<close>

theorem response_body_printed:
  assumes "on_request net = Returns ()"
    and "on_getresponse net = Returns res"
    and "content res = Returns data"
    and "utf8_encode text = Some data"
    and "list_all (stdout_encodes net) (text @ [10])"
  shows "fst (script net) = Returns () \<and> stdout (snd (script net)) = text @ [10]"
proof -
  have "utf8_decode data = Some text"
    using assms(4) by (simp add: utf8_decode_encode)
  with assms(1-3,5) show ?thesis
    by (simp add: script_eq)
qed

text \<open>
  The witness: the body \<^verbatim>\<open>{"status":"ok"}\<close>, and a body with characters of one, three and
  four bytes (\<^verbatim>\<open>ok\<close>, a space, U+751F and U+1F40D).
\<close>

theorem response_body_printed_witness:
  "(utf8_encode (str ''{\"status\":\"ok\"}'') = Some (bytes ''{\"status\":\"ok\"}'')
    \<and> fst (script (responding 200 (bytes ''{\"status\":\"ok\"}''))) = Returns ()
    \<and> stdout (snd (script (responding 200 (bytes ''{\"status\":\"ok\"}''))))
        = str ''{\"status\":\"ok\"}'' @ [10])
   \<and> (utf8_encode (str ''ok '' @ [0x751F, 0x1F40D])
          = Some (bytes ''ok '' @ [0xE7, 0x94, 0x9F, 0xF0, 0x9F, 0x90, 0x8D])
    \<and> fst (script (responding 200 (bytes ''ok '' @ [0xE7, 0x94, 0x9F, 0xF0, 0x9F, 0x90, 0x8D])))
        = Returns ()
    \<and> stdout (snd (script
          (responding 200 (bytes ''ok '' @ [0xE7, 0x94, 0x9F, 0xF0, 0x9F, 0x90, 0x8D]))))
        = str ''ok '' @ [0x751F, 0x1F40D] @ [10])"
proof -
  let ?a = "bytes ''{\"status\":\"ok\"}''"
  let ?b = "bytes ''ok '' @ [0xE7, 0x94, 0x9F, 0xF0, 0x9F, 0x90, 0x8D]"
  have ea: "utf8_encode (str ''{\"status\":\"ok\"}'') = Some ?a"
    by (simp add: utf8_encode_def utf8_char_def bytes_def str_def)
  have eb: "utf8_encode (str ''ok '' @ [0x751F, 0x1F40D]) = Some ?b"
    by (simp add: utf8_encode_def utf8_char_def bytes_def str_def)
  have ta: "list_all (stdout_encodes (responding 200 ?a)) (str ''{\"status\":\"ok\"}'' @ [10])"
    by (simp add: responding_def utf8_stdout_def utf8_char_def str_def)
  have tb: "list_all (stdout_encodes (responding 200 ?b)) ((str ''ok '' @ [0x751F, 0x1F40D]) @ [10])"
    by (simp add: responding_def utf8_stdout_def utf8_char_def str_def)
  have ra: "on_request (responding 200 ?a) = Returns ()"
    and rb: "on_request (responding 200 ?b) = Returns ()"
    by (simp_all add: responding_def)
  have ga: "on_getresponse (responding 200 ?a)
            = Returns \<lparr>status = 200, chunked = False, sent_body = Returns ?a\<rparr>"
    and gb: "on_getresponse (responding 200 ?b)
            = Returns \<lparr>status = 200, chunked = False, sent_body = Returns ?b\<rparr>"
    by (simp_all add: responding_def on_getresponse_def)
  have ca: "content \<lparr>status = 200, chunked = False, sent_body = Returns ?a\<rparr> = Returns ?a"
    and cb: "content \<lparr>status = 200, chunked = False, sent_body = Returns ?b\<rparr> = Returns ?b"
    by (simp_all add: content_def)
  show ?thesis
    using ea eb response_body_printed [OF ra ga ca ea ta]
      response_body_printed [OF rb gb cb eb tb]
    by simp
qed

text \<open>
  C4, as stated: a response with a status other than 200 ends the run in an unhandled
  error. It does not: a 404 response is printed and the run ends normally.
\<close>

theorem non_200_printed:
  "fst (script (responding 404 (bytes ''Not Found''))) = Returns ()
   \<and> stdout (snd (script (responding 404 (bytes ''Not Found'')))) = str ''Not Found'' @ [10]"
  by (simp add: script_eq responding_def on_getresponse_def content_def utf8_decode_def
      bytes_def str_def utf8_stdout_def utf8_char_def)

text \<open>
  C4, amended: a status other than 200 does not end the run in an error. When the request
  is sent, \<^verbatim>\<open>getresponse\<close> returns a response whose status is not 200, \<^verbatim>\<open>read()\<close> returns its
  body, the body is the UTF-8 encoding of a text, and the encoding of standard output can
  represent every character of that text and the newline, the script prints the text
  followed by one newline and ends normally.
\<close>

theorem non_200_response_printed:
  assumes "on_request net = Returns ()"
    and "on_getresponse net = Returns res"
    and "status res \<noteq> 200"
    and "content res = Returns data"
    and "utf8_encode text = Some data"
    and "list_all (stdout_encodes net) (text @ [10])"
  shows "fst (script net) = Returns () \<and> stdout (snd (script net)) = text @ [10]"
proof -
  have "utf8_decode data = Some text"
    using assms(5) by (simp add: utf8_decode_encode)
  with assms(1,2,4,6) show ?thesis
    by (simp add: script_eq)
qed

text \<open>
  The witness: a 503 response with a body of one-byte and three-byte characters, and a 204
  response, whose body \<^verbatim>\<open>read()\<close> returns empty whatever the server sends.
\<close>

theorem non_200_response_printed_witness:
  "(status \<lparr>status = 503, chunked = False, sent_body = Returns (bytes ''busy '' @ [0xE7, 0x94, 0x9F])\<rparr>
      \<noteq> 200
    \<and> utf8_encode (str ''busy '' @ [0x751F]) = Some (bytes ''busy '' @ [0xE7, 0x94, 0x9F])
    \<and> fst (script (responding 503 (bytes ''busy '' @ [0xE7, 0x94, 0x9F]))) = Returns ()
    \<and> stdout (snd (script (responding 503 (bytes ''busy '' @ [0xE7, 0x94, 0x9F]))))
        = str ''busy '' @ [0x751F] @ [10])
   \<and> (content \<lparr>status = 204, chunked = False, sent_body = Returns (bytes ''ignored'')\<rparr>
        = Returns []
    \<and> fst (script (responding 204 (bytes ''ignored''))) = Returns ()
    \<and> stdout (snd (script (responding 204 (bytes ''ignored'')))) = [10])"
proof -
  let ?a = "bytes ''busy '' @ [0xE7, 0x94, 0x9F]"
  let ?ra = "\<lparr>status = 503, chunked = False, sent_body = Returns ?a\<rparr>"
  let ?rb = "\<lparr>status = 204, chunked = False, sent_body = Returns (bytes ''ignored'')\<rparr>"
  have ea: "utf8_encode (str ''busy '' @ [0x751F]) = Some ?a"
    by (simp add: utf8_encode_def utf8_char_def bytes_def str_def)
  have eb: "utf8_encode [] = Some []"
    by (simp add: utf8_encode_def)
  have ta: "list_all (stdout_encodes (responding 503 ?a)) ((str ''busy '' @ [0x751F]) @ [10])"
    by (simp add: responding_def utf8_stdout_def utf8_char_def str_def)
  have tb: "list_all (stdout_encodes (responding 204 (bytes ''ignored''))) ([] @ [10])"
    by (simp add: responding_def utf8_stdout_def utf8_char_def)
  have ra: "on_request (responding 503 ?a) = Returns ()"
    and rb: "on_request (responding 204 (bytes ''ignored'')) = Returns ()"
    by (simp_all add: responding_def)
  have ga: "on_getresponse (responding 503 ?a) = Returns ?ra"
    and gb: "on_getresponse (responding 204 (bytes ''ignored'')) = Returns ?rb"
    by (simp_all add: responding_def on_getresponse_def)
  have sa: "status ?ra \<noteq> 200" and sb: "status ?rb \<noteq> 200"
    by simp_all
  have ca: "content ?ra = Returns ?a" and cb: "content ?rb = Returns []"
    by (simp_all add: content_def)
  show ?thesis
    using sa ea cb non_200_response_printed [OF ra ga sa ca ea ta]
      non_200_response_printed [OF rb gb sb cb eb tb]
    by simp
qed

text \<open>
  C8. When the transport fails before a complete response is there (the connection is
  refused or times out, or the server closes it without an answer or in the middle of the
  body), the run ends with that exception unhandled: it does not end normally, it does not
  block, it prints nothing, and it has made its one request only (no retry).
\<close>

theorem transport_failure_unhandled:
  assumes "transport_fails net e"
  shows "fst (script net) = Raises e \<and> stdout (snd (script net)) = []
         \<and> length (requests (snd (script net))) = 1"
  using assms
  by (auto simp: transport_fails_def script_eq split: outcome.splits)

theorem transport_failure_unhandled_witness:
  "(transport_fails refusing ConnectionRefusedError
    \<and> fst (script refusing) = Raises ConnectionRefusedError
    \<and> stdout (snd (script refusing)) = []
    \<and> length (requests (snd (script refusing))) = 1)
   \<and> (transport_fails closing RemoteDisconnected
    \<and> fst (script closing) = Raises RemoteDisconnected
    \<and> stdout (snd (script closing)) = []
    \<and> length (requests (snd (script closing))) = 1)
   \<and> (transport_fails truncating IncompleteRead
    \<and> fst (script truncating) = Raises IncompleteRead
    \<and> stdout (snd (script truncating)) = []
    \<and> length (requests (snd (script truncating))) = 1)"
proof -
  have r: "transport_fails refusing ConnectionRefusedError"
    by (simp add: transport_fails_def refusing_def)
  have c: "transport_fails closing RemoteDisconnected"
    by (simp add: transport_fails_def closing_def on_getresponse_def)
  have t: "transport_fails truncating IncompleteRead"
    by (simp add: transport_fails_def truncating_def on_getresponse_def content_def)
  show ?thesis
    using r c t transport_failure_unhandled [OF r] transport_failure_unhandled [OF c]
      transport_failure_unhandled [OF t]
    by simp
qed

text \<open>
  C10. The body is decoded strictly: when the response is read completely and its body is
  not the UTF-8 encoding of any text, the run ends with an unhandled \<^verbatim>\<open>UnicodeDecodeError\<close>
  and nothing is printed.
\<close>

theorem invalid_utf8_unhandled:
  assumes "on_request net = Returns ()"
    and "on_getresponse net = Returns res"
    and "content res = Returns data"
    and "\<And>s. utf8_encode s \<noteq> Some data"
  shows "fst (script net) = Raises UnicodeDecodeError \<and> stdout (snd (script net)) = []"
proof -
  have "utf8_decode data = None"
  proof (cases "utf8_decode data")
    case None
    then show ?thesis .
  next
    case (Some s)
    then have "utf8_encode s = Some data"
      by (simp add: utf8_decode_encode)
    with assms(4) show ?thesis by simp
  qed
  with assms(1-3) show ?thesis
    by (simp add: script_eq)
qed

theorem invalid_utf8_unhandled_witness:
  "(\<forall>s. utf8_encode s \<noteq> Some [0xE7, 0x94])
   \<and> fst (script (responding 200 [0xE7, 0x94])) = Raises UnicodeDecodeError
   \<and> stdout (snd (script (responding 200 [0xE7, 0x94]))) = []"
proof -
  have d: "utf8_decode [0xE7, 0x94] = None"
    by (simp add: utf8_decode_def)
  have n: "utf8_encode s \<noteq> Some [0xE7, 0x94]" for s
    using d by (simp add: utf8_decode_encode [symmetric])
  show ?thesis
    using n invalid_utf8_unhandled
      [of "responding 200 [0xE7, 0x94]"
          "\<lparr>status = 200, chunked = False, sent_body = Returns [0xE7, 0x94]\<rparr>"
          "[0xE7, 0x94]"]
    by (simp add: responding_def on_getresponse_def content_def)
qed

end
